theory Spec2Isabelle
  imports Complex_Main
begin

section \<open>Domain model (types.ts)\<close>

datatype ActivityType =
  INITIATION | APPLY | SUBMIT | INTERVIEW | REFERENCE | NETWORKING | OFFER | REJECTION | OTHER

datatype OpportunityStatus =
  IDENTIFIED | APPLIED | INTERVIEWING | OFFERED | REJECTED | WITHDRAWN | GHOSTED

text \<open>
  The three interfaces. An optional field (\<^verbatim>\<open>email?: string\<close>) is an \<open>option\<close>, with
  \<open>None\<close> for \<^verbatim>\<open>undefined\<close>. The \<open>type\<close> of an activity is optional in the model because
  \<^verbatim>\<open>handleSave\<close> stores \<^verbatim>\<open>formData.type as ActivityType\<close>, a cast that passes an absent
  value through.
\<close>

record Contact =
  contact_id :: string
  contact_name :: string
  contact_role :: string
  contact_email :: "string option"
  contact_phone :: "string option"
  contact_company :: string
  contact_notes :: "string option"

record Opportunity =
  opp_id :: string
  opp_position :: string
  opp_role :: string
  opp_employer :: string
  opp_description :: "string option"
  opp_status :: OpportunityStatus
  opp_createdAt :: string
  opp_updatedAt :: string

record Activity =
  act_id :: string
  act_opportunityId :: string
  act_title :: string
  act_type :: "ActivityType option"
  act_date :: string
  act_contactIds :: "string list"
  act_description :: string
  act_followUpAction :: "string option"
  act_followUpDate :: "string option"

text \<open>\<^verbatim>\<open>Partial<Contact>\<close>, \<^verbatim>\<open>Partial<Opportunity>\<close>, \<^verbatim>\<open>Partial<Activity>\<close>: every field optional.\<close>

record PartialContact =
  pc_id :: "string option"
  pc_name :: "string option"
  pc_role :: "string option"
  pc_email :: "string option"
  pc_phone :: "string option"
  pc_company :: "string option"
  pc_notes :: "string option"

record PartialOpportunity =
  po_id :: "string option"
  po_position :: "string option"
  po_role :: "string option"
  po_employer :: "string option"
  po_description :: "string option"
  po_status :: "OpportunityStatus option"
  po_createdAt :: "string option"
  po_updatedAt :: "string option"

record PartialActivity =
  pa_id :: "string option"
  pa_opportunityId :: "string option"
  pa_title :: "string option"
  pa_type :: "ActivityType option"
  pa_date :: "string option"
  pa_contactIds :: "string list option"
  pa_description :: "string option"
  pa_followUpAction :: "string option"
  pa_followUpDate :: "string option"

text \<open>
  \<^verbatim>\<open>ParsedActivity\<close>, the response of the extraction service. The value comes out of
  \<^verbatim>\<open>JSON.parse(response.text || "{}")\<close> unchecked, so \<open>contacts\<close> and \<open>activityData\<close>, which
  the interface declares as required, can be absent too.
\<close>

record ParsedActivity =
  isNewOpportunity :: bool
  opportunityMatchId :: "string option"
  opportunityData :: "PartialOpportunity option"
  activityData :: "PartialActivity option"
  parsed_contacts :: "PartialContact list option"
  reasoning :: string

section \<open>JavaScript values\<close>

text \<open>
  The exceptions the modelled code can raise itself. The SyntaxError of \<^verbatim>\<open>JSON.parse\<close> is
  always caught where it is raised and is the value \<open>None\<close> of the parser below.
\<close>

datatype js_error = TypeError

text \<open>
  What \<^verbatim>\<open>JSON.parse\<close> can return. A number is the real value of the double the parser
  produced. An object is its list of own properties. \<^verbatim>\<open>undefined\<close>, which is not a JSON
  value but is what reading a missing property gives, is \<open>None\<close> of \<open>js_value\<close>.
\<close>

datatype json =
  JNull | JBool bool | JNum real | JStr string | JArr "json list" | JObj "(string \<times> json) list"

type_synonym js_value = "json option"

fun truthy :: "json \<Rightarrow> bool" where
  "truthy JNull = False"
| "truthy (JBool b) = b"
| "truthy (JNum n) = (n \<noteq> 0)"
| "truthy (JStr s) = (s \<noteq> [])"
| "truthy (JArr xs) = True"
| "truthy (JObj kvs) = True"

text \<open>
  \<^verbatim>\<open>v.k\<close> on a value that is not \<^verbatim>\<open>null\<close>, for the property names the sync code reads
  (\<^verbatim>\<open>opportunities\<close>, \<^verbatim>\<open>ops\<close>, \<^verbatim>\<open>activities\<close>, \<^verbatim>\<open>acts\<close>, \<^verbatim>\<open>contacts\<close>, \<^verbatim>\<open>length\<close>): an
  object gives its own property, an array and a string have \<^verbatim>\<open>length\<close>, a number and a
  boolean have none of them.
\<close>

fun field :: "json \<Rightarrow> string \<Rightarrow> js_value" where
  "field (JObj kvs) k = map_of kvs k"
| "field (JArr xs) k = (if k = ''length'' then Some (JNum (real (length xs))) else None)"
| "field (JStr s) k = (if k = ''length'' then Some (JNum (real (length s))) else None)"
| "field v k = None"

text \<open>\<^verbatim>\<open>v.k\<close> in general: reading a property of \<^verbatim>\<open>null\<close> throws a TypeError.\<close>

definition get_prop :: "json \<Rightarrow> string \<Rightarrow> js_error + js_value" where
  "get_prop v k = (case v of JNull \<Rightarrow> Inl TypeError | _ \<Rightarrow> Inr (field v k))"

text \<open>
  The platform functions the code calls and this repository does not define.
  \<open>JSON_parse\<close> is \<open>None\<close> where \<^verbatim>\<open>JSON.parse\<close> throws a SyntaxError. \<open>gt_zero_coerced v\<close> is
  the result of \<^verbatim>\<open>v > 0\<close> for a \<open>v\<close> that is not a number (the comparison converts it
  first), \<open>None\<close> where the conversion throws.
\<close>

record platform =
  JSON_parse :: "string \<Rightarrow> json option"
  JSON_stringify :: "json \<Rightarrow> string"
  gt_zero_coerced :: "json \<Rightarrow> bool option"
  toLowerCase :: "string \<Rightarrow> string"
  trim :: "string \<Rightarrow> string"

definition gt_zero :: "platform \<Rightarrow> js_value \<Rightarrow> js_error + bool" where
  "gt_zero env x =
     (case x of
        None \<Rightarrow> Inr False
      | Some (JNum n) \<Rightarrow> Inr (0 < n)
      | Some v \<Rightarrow> (case gt_zero_coerced env v of None \<Rightarrow> Inl TypeError | Some b \<Rightarrow> Inr b))"

text \<open>\<^verbatim>\<open>v.length > 0\<close>.\<close>

definition length_gt0 :: "platform \<Rightarrow> json \<Rightarrow> js_error + bool" where
  "length_gt0 env v =
     (case get_prop v ''length'' of Inl e \<Rightarrow> Inl e | Inr l \<Rightarrow> gt_zero env l)"

text \<open>The truth value of \<^verbatim>\<open>v.k && v.k.length > 0\<close>.\<close>

definition has_items :: "platform \<Rightarrow> json \<Rightarrow> string \<Rightarrow> js_error + bool" where
  "has_items env v k =
     (case get_prop v k of
        Inl e \<Rightarrow> Inl e
      | Inr None \<Rightarrow> Inr False
      | Inr (Some c) \<Rightarrow> if truthy c then length_gt0 env c else Inr False)"

text \<open>\<^verbatim>\<open>a || b || []\<close>: the first truthy operand, a new empty array when there is none.\<close>

fun first_truthy :: "js_value list \<Rightarrow> json" where
  "first_truthy [] = JArr []"
| "first_truthy (None # xs) = first_truthy xs"
| "first_truthy (Some v # xs) = (if truthy v then v else first_truthy xs)"

text \<open>Strings and optional strings in a condition or on the left of \<^verbatim>\<open>||\<close>.\<close>

definition truthy_str :: "string option \<Rightarrow> bool" where
  "truthy_str x = (case x of None \<Rightarrow> False | Some s \<Rightarrow> s \<noteq> [])"

definition or_else :: "string option \<Rightarrow> string \<Rightarrow> string" where
  "or_else x d = (case x of None \<Rightarrow> d | Some s \<Rightarrow> if s \<noteq> [] then s else d)"

section \<open>Roster sort configuration (App, requestSort)\<close>

datatype sort_key = KEmployer | KRole | KStatus | KLastActivity

datatype sort_direction = Asc | Desc

record sortConfig =
  key :: sort_key
  direction :: sort_direction

definition requestSort :: "sort_key \<Rightarrow> sortConfig \<Rightarrow> sortConfig" where
  "requestSort k cfg =
     (let d = (if key cfg = k \<and> direction cfg = Asc then Desc else Asc)
      in \<lparr>key = k, direction = d\<rparr>)"

section \<open>App state (App component)\<close>

datatype FileSystemFileHandle = Handle string

datatype sync_status = Idle | Saving | Saved | Error

text \<open>
  The state variables of \<^verbatim>\<open>App\<close> that the sync engine and the activity modal touch. The
  three collections are declared \<^verbatim>\<open>Opportunity[]\<close>, \<^verbatim>\<open>Activity[]\<close>, \<^verbatim>\<open>Contact[]\<close>, but
  \<^verbatim>\<open>processFileContent\<close> stores whatever the file holds (\<^verbatim>\<open>fileData\<close> is \<^verbatim>\<open>any\<close>), so their
  type is a parameter: \<open>json\<close> for the sync engine, lists of records for the modal.
  \<open>conflictData\<close> is \<open>JNull\<close> when the state holds \<^verbatim>\<open>null\<close>.
\<close>

record ('os, 'acs, 'cs) app_state =
  opportunities :: 'os
  activities :: 'acs
  contacts :: 'cs
  isActivityModalOpen :: bool
  editingActivity :: "Activity option"
  activityModalOpId :: "string option"
  fileHandle :: "FileSystemFileHandle option"
  syncStatus :: sync_status
  lastSavedTime :: string
  hasUnsavedChanges :: bool
  conflictData :: json

type_synonym sync_app = "(json, json, json) app_state"

text \<open>
  The state variables the two effects of \<^verbatim>\<open>App\<close> depend on. A handler returns, with the
  new state, the set of those it has changed: React runs an effect after a render in
  which one of its dependencies is not \<^verbatim>\<open>Object.is\<close>-identical to its previous value.
  A value that \<^verbatim>\<open>JSON.parse\<close> or an array literal has just built is identical to an older
  one only if it is a primitive with the same value. A file handle that the picker has
  just returned is a new object; \<^verbatim>\<open>null\<close> is identical to \<^verbatim>\<open>null\<close>.
\<close>

datatype dep = DOpportunities | DActivities | DContacts | DFileHandle | DConflictData

definition object_is :: "json \<Rightarrow> json \<Rightarrow> bool" where
  "object_is old new =
     (old = new \<and> (case new of JArr xs \<Rightarrow> False | JObj kvs \<Rightarrow> False | _ \<Rightarrow> True))"

definition changed :: "dep \<Rightarrow> json \<Rightarrow> json \<Rightarrow> dep set" where
  "changed d old new = (if object_is old new then {} else {d})"

definition handle_changed :: "FileSystemFileHandle option \<Rightarrow> FileSystemFileHandle option \<Rightarrow> dep set" where
  "handle_changed old new = (if old = None \<and> new = None then {} else {DFileHandle})"

section \<open>File Sync Engine (App, processFileContent and the conflict handlers)\<close>

definition empty_file :: json where
  "empty_file =
     JObj [(''opportunities'', JArr []), (''activities'', JArr []), (''contacts'', JArr [])]"

text \<open>
  \<^verbatim>\<open>try { fileData = text ? JSON.parse(text) : {...} } catch (e) { fileData = {...} }\<close>
\<close>

definition parse_file :: "platform \<Rightarrow> string \<Rightarrow> json" where
  "parse_file env text =
     (if text \<noteq> [] then (case JSON_parse env text of Some v \<Rightarrow> v | None \<Rightarrow> empty_file)
      else empty_file)"

text \<open>
  \<^verbatim>\<open>(fileData.opportunities && fileData.opportunities.length > 0) ||
   (fileData.ops && fileData.ops.length > 0)\<close>
\<close>

definition fileHasData :: "platform \<Rightarrow> json \<Rightarrow> js_error + bool" where
  "fileHasData env fileData =
     (case has_items env fileData ''opportunities'' of
        Inl e \<Rightarrow> Inl e
      | Inr True \<Rightarrow> Inr True
      | Inr False \<Rightarrow> has_items env fileData ''ops'')"

text \<open>The branch \<^verbatim>\<open>if (!localHasData && fileHasData)\<close>.\<close>

definition adopt_file ::
  "json \<Rightarrow> FileSystemFileHandle option \<Rightarrow> sync_app \<Rightarrow> sync_app \<times> dep set" where
  "adopt_file fileData handle s =
     (let os = first_truthy [field fileData ''opportunities'', field fileData ''ops''];
          acs = first_truthy [field fileData ''activities'', field fileData ''acts''];
          cs = first_truthy [field fileData ''contacts''];
          s1 = s\<lparr>opportunities := os, activities := acs, contacts := cs,
                 hasUnsavedChanges := False\<rparr>;
          t1 = changed DOpportunities (opportunities s) os
               \<union> changed DActivities (activities s) acs
               \<union> changed DContacts (contacts s) cs
      in case handle of
           None \<Rightarrow> (s1, t1)
         | Some h \<Rightarrow> (s1\<lparr>fileHandle := Some h, syncStatus := Saved\<rparr>,
                      t1 \<union> handle_changed (fileHandle s) (Some h)))"

text \<open>The branch \<^verbatim>\<open>if (localHasData)\<close>.\<close>

definition raise_conflict ::
  "json \<Rightarrow> FileSystemFileHandle option \<Rightarrow> sync_app \<Rightarrow> sync_app \<times> dep set" where
  "raise_conflict fileData handle s =
     (let s1 = s\<lparr>conflictData := fileData\<rparr>;
          t1 = changed DConflictData (conflictData s) fileData
      in case handle of
           None \<Rightarrow> (s1, t1)
         | Some h \<Rightarrow> (s1\<lparr>fileHandle := Some h\<rparr>, t1 \<union> handle_changed (fileHandle s) (Some h)))"

text \<open>The last branch: neither side has opportunities.\<close>

definition connect_only ::
  "FileSystemFileHandle option \<Rightarrow> sync_app \<Rightarrow> sync_app \<times> dep set" where
  "connect_only handle s =
     (case handle of
        None \<Rightarrow> (s, {})
      | Some h \<Rightarrow> (s\<lparr>fileHandle := Some h, syncStatus := Saved, hasUnsavedChanges := False\<rparr>,
                   handle_changed (fileHandle s) (Some h)))"

text \<open>
  \<^verbatim>\<open>processFileContent(text, handle)\<close>. \<open>Inl\<close> is an exception that leaves the function
  before any setter has been called.
\<close>

definition processFileContent ::
  "platform \<Rightarrow> string \<Rightarrow> FileSystemFileHandle option \<Rightarrow> sync_app
     \<Rightarrow> js_error + (sync_app \<times> dep set)" where
  "processFileContent env text handle s =
     (let fileData = parse_file env text in
      case fileHasData env fileData of
        Inl e \<Rightarrow> Inl e
      | Inr fileHas \<Rightarrow>
         (case length_gt0 env (opportunities s) of
            Inl e \<Rightarrow> Inl e
          | Inr localHas \<Rightarrow>
              if \<not> localHas \<and> fileHas then Inr (adopt_file fileData handle s)
              else if localHas then Inr (raise_conflict fileData handle s)
              else Inr (connect_only handle s)))"

definition handleKeepLocal :: "sync_app \<Rightarrow> sync_app \<times> dep set" where
  "handleKeepLocal s =
     (s\<lparr>conflictData := JNull\<rparr>, changed DConflictData (conflictData s) JNull)"

definition handleImportFile :: "sync_app \<Rightarrow> sync_app \<times> dep set" where
  "handleImportFile s =
     (let cd = conflictData s in
      if truthy cd then
        (let os = first_truthy [field cd ''ops'', field cd ''opportunities''];
             acs = first_truthy [field cd ''acts'', field cd ''activities''];
             cs = first_truthy [field cd ''contacts'']
         in (s\<lparr>opportunities := os, activities := acs, contacts := cs,
                conflictData := JNull, hasUnsavedChanges := False\<rparr>,
             changed DOpportunities (opportunities s) os
             \<union> changed DActivities (activities s) acs
             \<union> changed DContacts (contacts s) cs
             \<union> changed DConflictData cd JNull))
      else (s, {}))"

text \<open>The \<^verbatim>\<open>onCancel\<close> of the conflict modal.\<close>

definition handleCancel :: "sync_app \<Rightarrow> sync_app \<times> dep set" where
  "handleCancel s =
     (s\<lparr>conflictData := JNull, fileHandle := None\<rparr>,
      changed DConflictData (conflictData s) JNull \<union> handle_changed (fileHandle s) None)"

text \<open>The conflict modal is rendered by \<^verbatim>\<open>{conflictData && (<ConflictModal .../>)}\<close>.\<close>

definition conflict_prompt_shown :: "sync_app \<Rightarrow> bool" where
  "conflict_prompt_shown s = truthy (conflictData s)"

section \<open>The two effects of App and the debounced save\<close>

text \<open>
  What surrounds the React state: the timer the auto-save effect has pending, with the
  file handle and the snapshot its \<^verbatim>\<open>saveData\<close> closure holds, and the writes made to
  connected files so far, oldest first.
\<close>

record world =
  app :: sync_app
  pendingSave :: "(FileSystemFileHandle \<times> json) option"
  written :: "(FileSystemFileHandle \<times> string) list"

text \<open>
  \<^verbatim>\<open>useEffect(() => { if (opportunities.length > 0 || activities.length > 0)
  setHasUnsavedChanges(true) }, [opportunities, activities, contacts])\<close>
\<close>

definition unsaved_changes_effect :: "platform \<Rightarrow> sync_app \<Rightarrow> js_error + sync_app" where
  "unsaved_changes_effect env s =
     (case length_gt0 env (opportunities s) of
        Inl e \<Rightarrow> Inl e
      | Inr True \<Rightarrow> Inr (s\<lparr>hasUnsavedChanges := True\<rparr>)
      | Inr False \<Rightarrow>
          (case length_gt0 env (activities s) of
             Inl e \<Rightarrow> Inl e
           | Inr b \<Rightarrow> Inr (if b then s\<lparr>hasUnsavedChanges := True\<rparr> else s)))"

text \<open>The object \<^verbatim>\<open>{ opportunities, activities, contacts }\<close> that is serialized.\<close>

definition snapshot :: "json \<Rightarrow> json \<Rightarrow> json \<Rightarrow> json" where
  "snapshot os acs cs = JObj [(''opportunities'', os), (''activities'', acs), (''contacts'', cs)]"

text \<open>
  The auto-save effect, run again: the cleanup of its previous run clears the pending
  timer, then \<^verbatim>\<open>if (!fileHandle || conflictData) return\<close>, else a new timer of 1000 ms.
\<close>

definition auto_save_effect :: "world \<Rightarrow> world" where
  "auto_save_effect w =
     (let s = app w in
      case fileHandle s of
        None \<Rightarrow> w\<lparr>pendingSave := None\<rparr>
      | Some h \<Rightarrow>
          if truthy (conflictData s) then w\<lparr>pendingSave := None\<rparr>
          else w\<lparr>pendingSave := Some (h, snapshot (opportunities s) (activities s) (contacts s))\<rparr>)"

text \<open>
  The effects after the render that follows a handler, given the dependencies the
  handler changed: each effect runs if one of its own dependencies is among them.
\<close>

definition run_effects :: "platform \<Rightarrow> dep set \<Rightarrow> world \<Rightarrow> js_error + world" where
  "run_effects env t w =
     (case (if DOpportunities \<in> t \<or> DActivities \<in> t \<or> DContacts \<in> t
            then unsaved_changes_effect env (app w) else Inr (app w)) of
        Inl e \<Rightarrow> Inl e
      | Inr s \<Rightarrow>
          Inr (if DOpportunities \<in> t \<or> DActivities \<in> t \<or> DContacts \<in> t
                  \<or> DFileHandle \<in> t \<or> DConflictData \<in> t
               then auto_save_effect (w\<lparr>app := s\<rparr>) else w\<lparr>app := s\<rparr>))"

text \<open>
  The pending timer fires: \<^verbatim>\<open>saveData\<close> writes the serialized snapshot. \<open>write_ok\<close> says
  whether \<^verbatim>\<open>createWritable\<close>, \<^verbatim>\<open>write\<close> and \<^verbatim>\<open>close\<close> succeed; \<open>now\<close> is the time string.
\<close>

definition saveData :: "platform \<Rightarrow> bool \<Rightarrow> string \<Rightarrow> world \<Rightarrow> world" where
  "saveData env write_ok now w =
     (case pendingSave w of
        None \<Rightarrow> w
      | Some (h, snap) \<Rightarrow>
          if write_ok then
            w\<lparr>app := (app w)\<lparr>syncStatus := Saved, lastSavedTime := now,
                              hasUnsavedChanges := False\<rparr>,
              pendingSave := None,
              written := written w @ [(h, JSON_stringify env snap)]\<rparr>
          else w\<lparr>app := (app w)\<lparr>syncStatus := Error\<rparr>, pendingSave := None\<rparr>)"

text \<open>A handler that cannot throw, then the effects of the next render.\<close>

definition dispatch ::
  "platform \<Rightarrow> (sync_app \<Rightarrow> sync_app \<times> dep set) \<Rightarrow> world \<Rightarrow> js_error + world" where
  "dispatch env handler w =
     (case handler (app w) of (s, t) \<Rightarrow> run_effects env t (w\<lparr>app := s\<rparr>))"

text \<open>A file is selected: \<^verbatim>\<open>processFileContent\<close>, then the effects of the next render.\<close>

definition connect_file ::
  "platform \<Rightarrow> string \<Rightarrow> FileSystemFileHandle option \<Rightarrow> world \<Rightarrow> js_error + world" where
  "connect_file env text handle w =
     (case processFileContent env text handle (app w) of
        Inl e \<Rightarrow> Inl e
      | Inr (s, t) \<Rightarrow> run_effects env t (w\<lparr>app := s\<rparr>))"

section \<open>Smart-Entry Reconciler (ActivityModal)\<close>

record NewOpData =
  nd_employer :: string
  nd_position :: string
  nd_role :: string
  nd_status :: OpportunityStatus

text \<open>The state variables of the modal; \<open>formData\<close> is a \<^verbatim>\<open>Partial<Activity>\<close>.\<close>

record modal_state =
  formData :: PartialActivity
  loading :: bool
  isNewOp :: bool
  selectedOpId :: string
  newOpData :: NewOpData
  stagedContacts :: "PartialContact list"

text \<open>
  The state the initialization effect sets when the modal opens for a new activity
  (\<^verbatim>\<open>initialActivity\<close> is \<^verbatim>\<open>null\<close>); \<open>today\<close> is \<^verbatim>\<open>new Date().toISOString().split('T')[0]\<close>.
\<close>

definition initial_form :: "string \<Rightarrow> PartialActivity" where
  "initial_form today =
     \<lparr>pa_id = None, pa_opportunityId = None, pa_title = Some [], pa_type = Some OTHER,
      pa_date = Some today, pa_contactIds = Some [], pa_description = Some [],
      pa_followUpAction = Some [], pa_followUpDate = Some []\<rparr>"

definition initial_modal :: "string \<Rightarrow> string option \<Rightarrow> modal_state" where
  "initial_modal today opportunityId =
     \<lparr>formData = initial_form today, loading = False, isNewOp = False,
      selectedOpId = or_else opportunityId [],
      newOpData = \<lparr>nd_employer = [], nd_position = [], nd_role = [], nd_status = IDENTIFIED\<rparr>,
      stagedContacts = []\<rparr>"

text \<open>
  Step 1 of \<^verbatim>\<open>handleAutoFill\<close>, the opportunity: \<open>opportunityId\<close> is the prop of the
  modal (\<^verbatim>\<open>string | null\<close>, "if passed, context is locked"), tested by \<^verbatim>\<open>if (opportunityId)\<close>.
\<close>

definition autofill_opportunity ::
  "string option \<Rightarrow> ParsedActivity \<Rightarrow> modal_state \<Rightarrow> modal_state" where
  "autofill_opportunity opportunityId result m =
     (if truthy_str opportunityId then m
      else if isNewOpportunity result then
        m\<lparr>isNewOp := True,
          newOpData :=
            \<lparr>nd_employer = or_else (case opportunityData result of None \<Rightarrow> None
                                      | Some d \<Rightarrow> po_employer d) [],
             nd_position = or_else (case opportunityData result of None \<Rightarrow> None
                                      | Some d \<Rightarrow> po_position d) ''Unknown Position'',
             nd_role = or_else (case opportunityData result of None \<Rightarrow> None
                                  | Some d \<Rightarrow> po_role d) [],
             nd_status = (case opportunityData result of
                            None \<Rightarrow> IDENTIFIED
                          | Some d \<Rightarrow> (case po_status d of None \<Rightarrow> IDENTIFIED | Some st \<Rightarrow> st))\<rparr>,
          selectedOpId := []\<rparr>
      else if truthy_str (opportunityMatchId result) then
        m\<lparr>isNewOp := False, selectedOpId := or_else (opportunityMatchId result) []\<rparr>
      else m)"

text \<open>
  Step 2, the activity fields: the updater passed to \<^verbatim>\<open>setFormData\<close>. \<open>today\<close> is
  \<^verbatim>\<open>new Date().toISOString().split('T')[0]\<close>.
\<close>

definition autofill_activity :: "string \<Rightarrow> PartialActivity \<Rightarrow> PartialActivity \<Rightarrow> PartialActivity" where
  "autofill_activity today ad prev =
     prev\<lparr>pa_title := Some (or_else (pa_title prev) (or_else (pa_title ad) [])),
          pa_type := (if pa_type prev = Some OTHER \<and> pa_type ad \<noteq> None then pa_type ad
                      else pa_type prev),
          pa_date := (if pa_date prev = Some today \<and> truthy_str (pa_date ad) then pa_date ad
                      else pa_date prev),
          pa_followUpAction :=
            Some (or_else (pa_followUpAction prev) (or_else (pa_followUpAction ad) [])),
          pa_followUpDate :=
            Some (or_else (pa_followUpDate prev) (or_else (pa_followUpDate ad) []))\<rparr>"

text \<open>
  \<^verbatim>\<open>contacts.find(existing => existing.name.toLowerCase() === c.name.toLowerCase())\<close>:
  the first existing contact with the candidate's name in lower case. The callback runs
  once per existing contact until one matches, and throws a TypeError when the
  candidate has no name.
\<close>

fun find_match ::
  "(string \<Rightarrow> string) \<Rightarrow> Contact list \<Rightarrow> PartialContact \<Rightarrow> js_error + Contact option" where
  "find_match lc [] c = Inr None"
| "find_match lc (e # es) c =
     (case pc_name c of
        None \<Rightarrow> Inl TypeError
      | Some n \<Rightarrow> if lc (contact_name e) = lc n then Inr (Some e) else find_match lc es c)"

text \<open>
  The \<^verbatim>\<open>forEach\<close> over the candidates: the identifiers of the matches
  (\<open>existingIdsToSelect\<close>) and the candidates without a match (\<open>newStaged\<close>), both in
  the order of the candidates.
\<close>

fun match_contacts ::
  "(string \<Rightarrow> string) \<Rightarrow> Contact list \<Rightarrow> PartialContact list
     \<Rightarrow> js_error + (string list \<times> PartialContact list)" where
  "match_contacts lc existing [] = Inr ([], [])"
| "match_contacts lc existing (c # rest) =
     (case find_match lc existing c of
        Inl e \<Rightarrow> Inl e
      | Inr m \<Rightarrow>
          (case match_contacts lc existing rest of
             Inl e \<Rightarrow> Inl e
           | Inr (ids, staged) \<Rightarrow>
               (case m of
                  Some ex \<Rightarrow> Inr (contact_id ex # ids, staged)
                | None \<Rightarrow> Inr (ids, c # staged))))"

text \<open>
  \<^verbatim>\<open>Array.from(new Set(xs))\<close>: a Set keeps the first insertion of each element, in
  insertion order.
\<close>

definition set_add :: "'a list \<Rightarrow> 'a \<Rightarrow> 'a list" where
  "set_add acc x = (if x \<in> set acc then acc else acc @ [x])"

definition from_set :: "'a list \<Rightarrow> 'a list" where
  "from_set xs = foldl set_add [] xs"

text \<open>Step 3, the contacts; \<open>Inl\<close> when the \<^verbatim>\<open>forEach\<close> throws, before any setter.\<close>

definition autofill_contacts ::
  "(string \<Rightarrow> string) \<Rightarrow> Contact list \<Rightarrow> ParsedActivity \<Rightarrow> modal_state
     \<Rightarrow> js_error + modal_state" where
  "autofill_contacts lc existing result m =
     (case parsed_contacts result of
        None \<Rightarrow> Inr m
      | Some cands \<Rightarrow>
          if cands = [] then Inr m
          else
            (case match_contacts lc existing cands of
               Inl e \<Rightarrow> Inl e
             | Inr (existingIdsToSelect, newStaged) \<Rightarrow>
                 Inr (m\<lparr>formData := (formData m)
                           \<lparr>pa_contactIds :=
                              Some (from_set ((case pa_contactIds (formData m) of
                                                 None \<Rightarrow> [] | Some ids \<Rightarrow> ids)
                                              @ existingIdsToSelect))\<rparr>,
                        stagedContacts := stagedContacts m @ newStaged\<rparr>)))"

text \<open>
  \<^verbatim>\<open>handleAutoFill\<close>. \<open>response\<close> is what \<^verbatim>\<open>parseJobHuntInput\<close> returned, \<open>None\<close> when
  the call threw. \<open>Inr\<close> is the state after the handler and whether the \<^verbatim>\<open>catch\<close> block
  ran (the alert "Could not analyze text"). The updater of step 2 reads
  \<^verbatim>\<open>result.activityData.title\<close>; when the result has no \<open>activityData\<close> it throws a
  TypeError, not inside the \<^verbatim>\<open>try\<close> block but when React applies the update, and the
  modal fails to render: that is \<open>Inl\<close>.
\<close>

definition handleAutoFill ::
  "platform \<Rightarrow> string \<Rightarrow> Contact list \<Rightarrow> string option \<Rightarrow> ParsedActivity option
     \<Rightarrow> modal_state \<Rightarrow> js_error + (modal_state \<times> bool)" where
  "handleAutoFill env today existing opportunityId response m =
     (if \<not> truthy_str (map_option (trim env) (pa_description (formData m))) then Inr (m, False)
      else
        (case response of
           None \<Rightarrow> Inr (m\<lparr>loading := False\<rparr>, True)
         | Some result \<Rightarrow>
             (case activityData result of
                None \<Rightarrow> Inl TypeError
              | Some ad \<Rightarrow>
                  (let m1 = autofill_opportunity opportunityId result m;
                       m2 = m1\<lparr>formData := autofill_activity today ad (formData m1)\<rparr>
                   in case autofill_contacts (toLowerCase env) existing result m2 of
                        Inl e \<Rightarrow> Inr (m2\<lparr>loading := False\<rparr>, True)
                      | Inr m3 \<Rightarrow> Inr (m3\<lparr>loading := False\<rparr>, False)))))"

text \<open>What \<^verbatim>\<open>handleSave\<close> passes to \<^verbatim>\<open>onSave\<close>.\<close>

record save_data =
  sd_activity :: Activity
  sd_newOpportunity :: "Opportunity option"
  sd_newContacts :: "Contact list"

text \<open>
  The contacts promoted by \<^verbatim>\<open>stagedContacts.map(c => ({ id: uuidv4(), ... }))\<close>.
  \<open>uuidv4\<close> is the sequence of identifiers the generator returns and \<open>i\<close> the number of
  calls made before; \<open>newOp\<close> is the opportunity created by this save, if any.
\<close>

fun promote_contacts ::
  "(nat \<Rightarrow> string) \<Rightarrow> nat \<Rightarrow> Opportunity option \<Rightarrow> PartialContact list \<Rightarrow> Contact list" where
  "promote_contacts uuidv4 i newOp [] = []"
| "promote_contacts uuidv4 i newOp (c # cs) =
     \<lparr>contact_id = uuidv4 i,
      contact_name = or_else (pc_name c) ''Unknown'',
      contact_role = or_else (pc_role c) ''Contact'',
      contact_email = pc_email c,
      contact_phone = None,
      contact_company =
        or_else (pc_company c) (case newOp of Some op \<Rightarrow> opp_employer op | None \<Rightarrow> ''Unknown''),
      contact_notes = Some ''Auto-created''\<rparr>
     # promote_contacts uuidv4 (Suc i) newOp cs"

text \<open>
  \<^verbatim>\<open>handleSave\<close>: \<open>None\<close> when one of the three checks returns before \<^verbatim>\<open>onSave\<close> is called.
\<close>

definition handleSave ::
  "(nat \<Rightarrow> string) \<Rightarrow> string \<Rightarrow> Activity option \<Rightarrow> string option \<Rightarrow> modal_state
     \<Rightarrow> save_data option" where
  "handleSave uuidv4 today initialActivity opportunityId m =
     (if \<not> truthy_str (pa_title (formData m)) \<or> \<not> truthy_str (pa_date (formData m)) then None
      else if \<not> isNewOp m \<and> selectedOpId m = [] \<and> \<not> truthy_str opportunityId then None
      else if isNewOp m \<and> nd_employer (newOpData m) = [] then None
      else
        (let creating = (isNewOp m \<and> \<not> truthy_str opportunityId);
             finalOpId = (if creating then uuidv4 0 else or_else opportunityId (selectedOpId m));
             newOp = (if creating then
                        Some \<lparr>opp_id = finalOpId,
                              opp_position = nd_position (newOpData m),
                              opp_role = nd_role (newOpData m),
                              opp_employer = nd_employer (newOpData m),
                              opp_description = Some ''Created via Smart Log'',
                              opp_status = nd_status (newOpData m),
                              opp_createdAt = today,
                              opp_updatedAt = today\<rparr>
                      else None);
             i = (if creating then 1 else 0);
             finalNewContacts = promote_contacts uuidv4 i newOp (stagedContacts m);
             allContactIds = (case pa_contactIds (formData m) of None \<Rightarrow> [] | Some ids \<Rightarrow> ids)
                             @ map contact_id finalNewContacts;
             activity =
               \<lparr>act_id = or_else (map_option act_id initialActivity)
                                  (uuidv4 (i + length (stagedContacts m))),
                act_opportunityId = finalOpId,
                act_title = or_else (pa_title (formData m)) [],
                act_type = pa_type (formData m),
                act_date = or_else (pa_date (formData m)) [],
                act_contactIds = allContactIds,
                act_description = or_else (pa_description (formData m)) [],
                act_followUpAction = pa_followUpAction (formData m),
                act_followUpDate = pa_followUpDate (formData m)\<rparr>
         in Some \<lparr>sd_activity = activity, sd_newOpportunity = newOp,
                  sd_newContacts = finalNewContacts\<rparr>))"

type_synonym typed_app = "(Opportunity list, Activity list, Contact list) app_state"

text \<open>\<^verbatim>\<open>handleSaveActivity\<close>, the \<^verbatim>\<open>onSave\<close> that \<^verbatim>\<open>App\<close> passes to the modal.\<close>

definition handleSaveActivity :: "save_data \<Rightarrow> typed_app \<Rightarrow> typed_app" where
  "handleSaveActivity d s =
     (let os = (case sd_newOpportunity d of
                  Some op \<Rightarrow> opportunities s @ [op]
                | None \<Rightarrow> opportunities s);
          cs = (if sd_newContacts d \<noteq> [] then contacts s @ sd_newContacts d else contacts s);
          acs = (if editingActivity s \<noteq> None
                 then map (\<lambda>a. if act_id a = act_id (sd_activity d) then sd_activity d else a)
                          (activities s)
                 else activities s @ [sd_activity d])
      in s\<lparr>opportunities := os, contacts := cs, activities := acs,
           isActivityModalOpen := False, hasUnsavedChanges := True\<rparr>)"

text \<open>
  The save button of the modal opened by \<^verbatim>\<open>App\<close>: the props \<open>initialActivity\<close> and
  \<open>opportunityId\<close> are the state variables \<open>editingActivity\<close> and \<open>activityModalOpId\<close>.
\<close>

definition save_click :: "(nat \<Rightarrow> string) \<Rightarrow> string \<Rightarrow> modal_state \<Rightarrow> typed_app \<Rightarrow> typed_app" where
  "save_click uuidv4 today m s =
     (case handleSave uuidv4 today (editingActivity s) (activityModalOpId s) m of
        None \<Rightarrow> s
      | Some d \<Rightarrow> handleSaveActivity d s)"

section \<open>Properties stated in the specification's words\<close>

text \<open>Re-selecting a sort key flips the direction.\<close>

definition flipped :: "sort_direction \<Rightarrow> sort_direction" where
  "flipped d = (case d of Asc \<Rightarrow> Desc | Desc \<Rightarrow> Asc)"

text \<open>
  The mandatory-field check of a save as the specification words it: title and date
  present, and an existing opportunity selected, or a new one staged with its employer,
  or the context locked.
\<close>

definition mandatory_fields_ok :: "string option \<Rightarrow> modal_state \<Rightarrow> bool" where
  "mandatory_fields_ok opportunityId m =
     (truthy_str (pa_title (formData m)) \<and> truthy_str (pa_date (formData m))
      \<and> (selectedOpId m \<noteq> []
          \<or> (isNewOp m \<and> nd_employer (newOpData m) \<noteq> [])
          \<or> truthy_str opportunityId))"


section \<open>Sample inputs\<close>

text \<open>
  A platform for the concrete runs below: lower case and trimming on ASCII, and
  \<^verbatim>\<open>JSON.parse\<close> and \<^verbatim>\<open>JSON.stringify(v, null, 2)\<close> given by their values on the sample
  files, which are written out line by line. No sample holds a \<^verbatim>\<open>length\<close> that is not a
  number, so the comparison of such a value with zero is never reached; it is given for
  \<^verbatim>\<open>null\<close> and the booleans.
\<close>

definition lines :: "string list \<Rightarrow> string" where
  "lines ls = (case ls of [] \<Rightarrow> [] | l # rest \<Rightarrow> foldl (\<lambda>acc x. acc @ [CHR 0x0A] @ x) l rest)"

definition ascii_lower :: "string \<Rightarrow> string" where
  "ascii_lower s =
     map (\<lambda>c. case map_of (zip ''ABCDEFGHIJKLMNOPQRSTUVWXYZ'' ''abcdefghijklmnopqrstuvwxyz'') c of
                 Some d \<Rightarrow> d | None \<Rightarrow> c) s"

definition ascii_trim :: "string \<Rightarrow> string" where
  "ascii_trim s =
     rev (dropWhile (\<lambda>c. c \<in> set [CHR '' '', CHR 0x09, CHR 0x0A, CHR 0x0D])
            (rev (dropWhile (\<lambda>c. c \<in> set [CHR '' '', CHR 0x09, CHR 0x0A, CHR 0x0D]) s)))"

definition acme_json :: json where
  "acme_json =
     JObj [(''id'', JStr ''o1''), (''position'', JStr ''Engineer''), (''role'', JStr ''Engineer''),
           (''employer'', JStr ''Acme''), (''status'', JStr ''Identified''),
           (''createdAt'', JStr ''2024-01-01''), (''updatedAt'', JStr ''2024-01-01'')]"

definition sarah_json :: json where
  "sarah_json =
     JObj [(''id'', JStr ''c1''), (''name'', JStr ''Sarah''), (''role'', JStr ''Recruiter''),
           (''company'', JStr ''Acme'')]"

definition null_text :: string where
  "null_text = ''null''"

definition empty_snapshot_text :: string where
  \<open>empty_snapshot_text =
     lines [''{'',
            ''  "opportunities": [],'',
            ''  "activities": [],'',
            ''  "contacts": []'',
            ''}'']\<close>

definition acme_text :: string where
  \<open>acme_text =
     lines [''{'',
            ''  "opportunities": ['',
            ''    {'',
            ''      "id": "o1",'',
            ''      "position": "Engineer",'',
            ''      "role": "Engineer",'',
            ''      "employer": "Acme",'',
            ''      "status": "Identified",'',
            ''      "createdAt": "2024-01-01",'',
            ''      "updatedAt": "2024-01-01"'',
            ''    }'',
            ''  ],'',
            ''  "activities": [],'',
            ''  "contacts": []'',
            ''}'']\<close>

definition contacts_only_text :: string where
  \<open>contacts_only_text =
     lines [''{'',
            ''  "opportunities": [],'',
            ''  "activities": [],'',
            ''  "contacts": ['',
            ''    {'',
            ''      "id": "c1",'',
            ''      "name": "Sarah",'',
            ''      "role": "Recruiter",'',
            ''      "company": "Acme"'',
            ''    }'',
            ''  ]'',
            ''}'']\<close>

definition sample_parse :: "string \<Rightarrow> json option" where
  "sample_parse text =
     (if text = null_text then Some JNull
      else if text = empty_snapshot_text then Some (snapshot (JArr []) (JArr []) (JArr []))
      else if text = acme_text then Some (snapshot (JArr [acme_json]) (JArr []) (JArr []))
      else if text = contacts_only_text then Some (snapshot (JArr []) (JArr []) (JArr [sarah_json]))
      else None)"

definition sample_stringify :: "json \<Rightarrow> string" where
  "sample_stringify v =
     (if v = JNull then null_text
      else if v = snapshot (JArr []) (JArr []) (JArr []) then empty_snapshot_text
      else if v = snapshot (JArr [acme_json]) (JArr []) (JArr []) then acme_text
      else if v = snapshot (JArr []) (JArr []) (JArr [sarah_json]) then contacts_only_text
      else [])"

definition sample_platform :: platform where
  "sample_platform =
     \<lparr>JSON_parse = sample_parse,
      JSON_stringify = sample_stringify,
      gt_zero_coerced = (\<lambda>v. case v of JBool b \<Rightarrow> Some b | _ \<Rightarrow> Some False),
      toLowerCase = ascii_lower,
      trim = ascii_trim\<rparr>"

definition fresh_app :: sync_app where
  "fresh_app =
     \<lparr>opportunities = JArr [], activities = JArr [], contacts = JArr [],
      isActivityModalOpen = False, editingActivity = None, activityModalOpId = None,
      fileHandle = None, syncStatus = Idle, lastSavedTime = [], hasUnsavedChanges = False,
      conflictData = JNull\<rparr>"

definition fresh_world :: world where
  "fresh_world = \<lparr>app = fresh_app, pendingSave = None, written = []\<rparr>"

definition sample_handle :: FileSystemFileHandle where
  "sample_handle = Handle ''job-hunt.json''"


definition acme_world :: world where
  "acme_world = fresh_world\<lparr>app := fresh_app\<lparr>opportunities := JArr [acme_json]\<rparr>\<rparr>"

definition sample_uuidv4 :: "nat \<Rightarrow> string" where
  "sample_uuidv4 n = ''uuid-'' @ replicate n (CHR ''x'')"

definition described_modal :: "string option \<Rightarrow> modal_state" where
  "described_modal opportunityId =
     (initial_modal ''2024-03-01'' opportunityId)
       \<lparr>formData := (initial_form ''2024-03-01'')\<lparr>pa_description := Some ''Call with Sarah''\<rparr>\<rparr>"

definition no_activity_data :: PartialActivity where
  "no_activity_data =
     \<lparr>pa_id = None, pa_opportunityId = None, pa_title = None, pa_type = None, pa_date = None,
      pa_contactIds = None, pa_description = None, pa_followUpAction = None,
      pa_followUpDate = None\<rparr>"

definition match_o1_result :: ParsedActivity where
  "match_o1_result =
     \<lparr>isNewOpportunity = False, opportunityMatchId = Some ''o1'', opportunityData = None,
      activityData = Some (no_activity_data\<lparr>pa_title := Some ''Screening call''\<rparr>),
      parsed_contacts = None, reasoning = ''matches Acme''\<rparr>"

definition existing_sarah :: Contact where
  "existing_sarah =
     \<lparr>contact_id = ''c1'', contact_name = ''sarah'', contact_role = ''Recruiter'',
      contact_email = None, contact_phone = None, contact_company = ''Acme'',
      contact_notes = None\<rparr>"

definition nameless_candidate :: PartialContact where
  "nameless_candidate =
     \<lparr>pc_id = None, pc_name = None, pc_role = None, pc_email = None, pc_phone = None,
      pc_company = None, pc_notes = None\<rparr>"

definition candidate_Sarah :: PartialContact where
  "candidate_Sarah = nameless_candidate\<lparr>pc_name := Some ''Sarah''\<rparr>"

definition contacts_result :: "PartialContact list \<Rightarrow> ParsedActivity" where
  "contacts_result cands =
     \<lparr>isNewOpportunity = False, opportunityMatchId = None, opportunityData = None,
      activityData = Some no_activity_data, parsed_contacts = Some cands, reasoning = []\<rparr>"


definition typed_fresh_app :: typed_app where
  "typed_fresh_app =
     \<lparr>opportunities = [], activities = [], contacts = [existing_sarah],
      isActivityModalOpen = True, editingActivity = None, activityModalOpId = Some ''o2'',
      fileHandle = None, syncStatus = Idle, lastSavedTime = [], hasUnsavedChanges = False,
      conflictData = JNull\<rparr>"

section \<open>Evaluation rules and helper lemmas\<close>

lemmas sample_texts =
  null_text_def empty_snapshot_text_def acme_text_def contacts_only_text_def lines_def

lemmas sync_defs = processFileContent_def parse_file_def fileHasData_def has_items_def
  get_prop_def length_gt0_def gt_zero_def adopt_file_def raise_conflict_def connect_only_def
  changed_def object_is_def handle_changed_def Let_def

lemmas effect_defs = connect_file_def run_effects_def unsaved_changes_effect_def
  auto_save_effect_def saveData_def

lemmas modal_samples = initial_form_def initial_modal_def described_modal_def
  no_activity_data_def match_o1_result_def existing_sarah_def nameless_candidate_def
  candidate_Sarah_def contacts_result_def

lemmas autofill_defs = handleAutoFill_def autofill_opportunity_def autofill_activity_def
  autofill_contacts_def truthy_str_def or_else_def Let_def

subsection \<open>Reconciliation, branch by branch\<close>

lemma length_gt0_JArr: "length_gt0 env (JArr xs) = Inr (xs \<noteq> [])"
  by (simp add: length_gt0_def get_prop_def gt_zero_def)

lemma fileHasData_snapshot:
  "fileHasData env (snapshot (JArr os) acs cs) = Inr (os \<noteq> [])"
  by (cases "os = []")
     (simp_all add: fileHasData_def has_items_def get_prop_def snapshot_def length_gt0_JArr)

lemma fileHasData_empty_file: "fileHasData env empty_file = Inr False"
  by (simp add: fileHasData_def has_items_def get_prop_def empty_file_def length_gt0_JArr)

lemma parse_file_empty_text: "parse_file env [] = empty_file"
  by (simp add: parse_file_def)

lemma parse_file_syntax_error: "JSON_parse env text = None \<Longrightarrow> parse_file env text = empty_file"
  by (simp add: parse_file_def)

lemma processFileContent_unparseable:
  assumes "text = [] \<or> JSON_parse env text = None"
      and "opportunities s = JArr os"
  shows "processFileContent env text handle s
           = Inr (if os \<noteq> [] then raise_conflict empty_file handle s
                  else connect_only handle s)"
proof -
  from assms(1) have "parse_file env text = empty_file"
    by (auto simp: parse_file_def)
  with assms(2) show ?thesis
    by (simp add: processFileContent_def fileHasData_empty_file length_gt0_JArr)
qed

lemma raise_conflict_keeps_collections:
  "opportunities (fst (raise_conflict fileData handle s)) = opportunities s
   \<and> activities (fst (raise_conflict fileData handle s)) = activities s
   \<and> contacts (fst (raise_conflict fileData handle s)) = contacts s
   \<and> conflictData (fst (raise_conflict fileData handle s)) = fileData"
  by (cases handle) (simp_all add: raise_conflict_def Let_def)

text \<open>
  A file whose content parses to a falsy value (\<^verbatim>\<open>0\<close>, \<^verbatim>\<open>false\<close>, \<^verbatim>\<open>""\<close>) is stored as
  the conflict data, and the prompt, rendered under \<^verbatim>\<open>conflictData && ...\<close>, stays away.
\<close>

lemma raise_conflict_falsy:
  "\<not> truthy fileData \<Longrightarrow> \<not> conflict_prompt_shown (fst (raise_conflict fileData handle s))"
  by (cases handle) (simp_all add: raise_conflict_def conflict_prompt_shown_def Let_def)

lemma connect_only_keeps_collections:
  "opportunities (fst (connect_only handle s)) = opportunities s
   \<and> activities (fst (connect_only handle s)) = activities s
   \<and> contacts (fst (connect_only handle s)) = contacts s
   \<and> conflictData (fst (connect_only handle s)) = conflictData s"
  by (cases handle) (simp_all add: connect_only_def)

lemma processFileContent_conflict:
  assumes "opportunities s = JArr (x # xs)"
      and "fileHasData env (parse_file env text) = Inr b"
  shows "processFileContent env text handle s
           = Inr (raise_conflict (parse_file env text) handle s)"
  using assms by (simp add: processFileContent_def length_gt0_JArr)

lemma adopt_file_snapshot:
  "fst (adopt_file (snapshot (JArr os) (JArr acs) (JArr cs)) handle s)
     = (case handle of
          None \<Rightarrow> s\<lparr>opportunities := JArr os, activities := JArr acs, contacts := JArr cs,
                    hasUnsavedChanges := False\<rparr>
        | Some h \<Rightarrow> s\<lparr>opportunities := JArr os, activities := JArr acs, contacts := JArr cs,
                      hasUnsavedChanges := False, fileHandle := Some h, syncStatus := Saved\<rparr>)"
  by (cases handle) (simp_all add: adopt_file_def snapshot_def Let_def)

text \<open>
  With an opportunity in memory, an empty file, a file that is not JSON and a file that
  holds a snapshot all lead to the conflict prompt, and the collections are kept.
\<close>

lemma conflict_for_empty_unparseable_or_snapshot_file:
  assumes local_data: "opportunities s = JArr (x # xs)"
      and content: "text = [] \<or> JSON_parse env text = None
                    \<or> JSON_parse env text = Some (snapshot (JArr os) (JArr acs) (JArr cs))"
  shows "\<exists>s' t. processFileContent env text handle s = Inr (s', t)
           \<and> conflict_prompt_shown s'
           \<and> opportunities s' = opportunities s
           \<and> activities s' = activities s
           \<and> contacts s' = contacts s"
proof -
  from content have p: "parse_file env text = empty_file
                     \<or> parse_file env text = snapshot (JArr os) (JArr acs) (JArr cs)"
    by (auto simp: parse_file_def)
  then have f: "\<exists>b. fileHasData env (parse_file env text) = Inr b"
    by (auto simp: fileHasData_empty_file fileHasData_snapshot)
  from p have t: "truthy (parse_file env text)"
    by (auto simp: empty_file_def snapshot_def)
  from f obtain b where "fileHasData env (parse_file env text) = Inr b" ..
  from processFileContent_conflict [OF local_data this]
  have "processFileContent env text handle s
          = Inr (raise_conflict (parse_file env text) handle s)" .
  moreover note raise_conflict_keeps_collections [of "parse_file env text" handle s]
  ultimately show ?thesis
    using t by (metis conflict_prompt_shown_def prod.collapse)
qed

lemma handleImportFile_snapshot:
  assumes "conflictData s = snapshot (JArr os) (JArr acs) (JArr cs)"
  shows "fst (handleImportFile s)
           = s\<lparr>opportunities := JArr os, activities := JArr acs, contacts := JArr cs,
                conflictData := JNull, hasUnsavedChanges := False\<rparr>"
  using assms by (simp add: handleImportFile_def snapshot_def Let_def)

lemma handleCancel_unconnected:
  "fileHandle (fst (handleCancel s)) = None
   \<and> \<not> conflict_prompt_shown (fst (handleCancel s))
   \<and> opportunities (fst (handleCancel s)) = opportunities s
   \<and> activities (fst (handleCancel s)) = activities s
   \<and> contacts (fst (handleCancel s)) = contacts s"
  by (simp add: handleCancel_def conflict_prompt_shown_def)

subsection \<open>The effects\<close>







text \<open>
  A store with one opportunity connected through a live handle to the file that holds
  its own snapshot: the conflict prompt comes up and nothing is scheduled; "keep local"
  clears the conflict data, the auto-save effect runs, and the file is written.
\<close>

lemma conflict_then_keep_local_rewrites_matching_file:
  "\<exists>w1 w2. connect_file sample_platform acme_text (Some sample_handle) acme_world = Inr w1
     \<and> conflict_prompt_shown (app w1)
     \<and> opportunities (app w1) = JArr [acme_json]
     \<and> pendingSave w1 = None
     \<and> dispatch sample_platform handleKeepLocal w1 = Inr w2
     \<and> opportunities (app w2) = JArr [acme_json]
     \<and> written (saveData sample_platform True ''10:00:00'' w2) = [(sample_handle, acme_text)]"
  by (simp add: effect_defs sync_defs dispatch_def handleKeepLocal_def sample_platform_def
                sample_parse_def sample_stringify_def sample_texts acme_world_def
                fresh_world_def fresh_app_def snapshot_def conflict_prompt_shown_def acme_json_def)

text \<open>
  An empty store that adopts a file through a live handle is marked dirty by the
  unsaved-changes effect as well; the debounced save that follows marks it clean, if the
  write succeeds.
\<close>

lemma adopted_file_dirty_until_saved:
  "\<exists>w1. connect_file sample_platform acme_text (Some sample_handle) fresh_world = Inr w1
     \<and> opportunities (app w1) = JArr [acme_json]
     \<and> hasUnsavedChanges (app w1)
     \<and> pendingSave w1 = Some (sample_handle, snapshot (JArr [acme_json]) (JArr []) (JArr []))
     \<and> \<not> hasUnsavedChanges (app (saveData sample_platform True ''10:00:00'' w1))
     \<and> hasUnsavedChanges (app (saveData sample_platform False ''10:00:00'' w1))"
  by (simp add: effect_defs sync_defs sample_platform_def
                sample_parse_def sample_stringify_def sample_texts
                fresh_world_def fresh_app_def snapshot_def acme_json_def)

subsection \<open>The modal\<close>

lemma handleSave_rejects:
  "\<not> mandatory_fields_ok opportunityId m \<Longrightarrow>
     handleSave uuidv4 today initialActivity opportunityId m = None"
  by (auto simp: mandatory_fields_ok_def handleSave_def)

lemma autofill_opportunity_locked:
  "truthy_str opportunityId \<Longrightarrow> autofill_opportunity opportunityId result m = m"
  by (simp add: autofill_opportunity_def)

lemma autofill_contacts_keeps_opportunity:
  "autofill_contacts lc existing result m = Inr m' \<Longrightarrow>
     isNewOp m' = isNewOp m \<and> selectedOpId m' = selectedOpId m \<and> newOpData m' = newOpData m"
  by (auto simp: autofill_contacts_def split: option.splits if_splits sum.splits)

lemma handleAutoFill_locked:
  assumes "truthy_str opportunityId"
      and "handleAutoFill env today existing opportunityId response m = Inr (m1, alerted)"
  shows "isNewOp m1 = isNewOp m \<and> selectedOpId m1 = selectedOpId m \<and> newOpData m1 = newOpData m"
  using assms
  by (auto simp: handleAutoFill_def autofill_opportunity_locked Let_def
           split: if_splits option.splits sum.splits
           dest!: autofill_contacts_keeps_opportunity)

lemma handleSave_locked:
  assumes "oid \<noteq> []"
      and "handleSave uuidv4 today initialActivity (Some oid) m = Some d"
  shows "act_opportunityId (sd_activity d) = oid \<and> sd_newOpportunity d = None"
  using assms by (auto simp: handleSave_def truthy_str_def or_else_def Let_def split: if_splits)

lemma sample_autofill_locked:
  "handleAutoFill sample_platform ''2024-03-01'' [existing_sarah] (Some ''o2'')
     (Some match_o1_result) (described_modal (Some ''o2''))
   = Inr ((described_modal (Some ''o2''))
            \<lparr>formData := (formData (described_modal (Some ''o2'')))
                            \<lparr>pa_title := Some ''Screening call''\<rparr>\<rparr>,
          False)"
  by (simp add: autofill_defs modal_samples sample_platform_def ascii_trim_def)
















section \<open>File Sync Engine: C1 to C5\<close>

text \<open>
  C1. With at least one opportunity in memory, every file content should lead to the
  conflict prompt. A file whose content is the JSON text \<^verbatim>\<open>null\<close> parses without error,
  so the fallback of the \<^verbatim>\<open>catch\<close> block is not taken, and reading
  \<^verbatim>\<open>fileData.opportunities\<close> throws before \<^verbatim>\<open>setConflictData\<close> is reached: no prompt.
\<close>

theorem processFileContent_null_file_with_local_data:
  "processFileContent sample_platform null_text (Some sample_handle)
     (fresh_app\<lparr>opportunities := JArr [acme_json]\<rparr>) = Inl TypeError"
  by (simp add: sync_defs sample_platform_def sample_parse_def null_text_def)

text \<open>
  C2. Connecting a file with one opportunity to an empty store adopts the file's three
  collections without a conflict prompt, and \<^verbatim>\<open>processFileContent\<close> marks the state clean;
  but the collections have changed, so the unsaved-changes effect runs after the render
  and marks the state dirty again. Shown for a manual import (no live handle), where no
  save follows.
\<close>

theorem adopted_file_leaves_store_dirty:
  "connect_file sample_platform acme_text None fresh_world
     = Inr (fresh_world\<lparr>app := fresh_app\<lparr>opportunities := JArr [acme_json],
                                           hasUnsavedChanges := True\<rparr>\<rparr>)
   \<and> \<not> conflict_prompt_shown (fresh_app\<lparr>opportunities := JArr [acme_json],
                                        hasUnsavedChanges := True\<rparr>)"
  by (simp add: effect_defs sync_defs sample_platform_def sample_parse_def sample_texts
                fresh_world_def fresh_app_def snapshot_def conflict_prompt_shown_def)

text \<open>
  C3, as amended. The serialized snapshot of three collections, reconciled against a
  store whose three collections are empty, gives back the three collections in the same
  order, provided the opportunities are not empty or all three collections are. The
  first two hypotheses say that \<^verbatim>\<open>JSON.parse\<close> inverts \<^verbatim>\<open>JSON.stringify\<close> on this snapshot
  and that the text is not the empty string.
\<close>

theorem roundtrip_into_empty_store:
  assumes roundtrip:
        "JSON_parse env (JSON_stringify env (snapshot (JArr os) (JArr acs) (JArr cs)))
           = Some (snapshot (JArr os) (JArr acs) (JArr cs))"
      and nonempty_text: "JSON_stringify env (snapshot (JArr os) (JArr acs) (JArr cs)) \<noteq> []"
      and empty_store: "opportunities s = JArr []" "activities s = JArr []" "contacts s = JArr []"
      and has_opportunities: "os \<noteq> [] \<or> (acs = [] \<and> cs = [])"
  shows "\<exists>s' t. processFileContent env
                  (JSON_stringify env (snapshot (JArr os) (JArr acs) (JArr cs))) handle s
                = Inr (s', t)
              \<and> opportunities s' = JArr os
              \<and> activities s' = JArr acs
              \<and> contacts s' = JArr cs
              \<and> conflictData s' = conflictData s"
proof -
  let ?file = "snapshot (JArr os) (JArr acs) (JArr cs)"
  from roundtrip nonempty_text have p: "parse_file env (JSON_stringify env ?file) = ?file"
    by (simp add: parse_file_def)
  show ?thesis
  proof (cases "os = []")
    case False
    then have "processFileContent env (JSON_stringify env ?file) handle s
                 = Inr (adopt_file ?file handle s)"
      using empty_store
      by (simp add: processFileContent_def p fileHasData_snapshot length_gt0_JArr)
    moreover have "opportunities (fst (adopt_file ?file handle s)) = JArr os
        \<and> activities (fst (adopt_file ?file handle s)) = JArr acs
        \<and> contacts (fst (adopt_file ?file handle s)) = JArr cs
        \<and> conflictData (fst (adopt_file ?file handle s)) = conflictData s"
      unfolding adopt_file_snapshot by (cases handle) simp_all
    ultimately show ?thesis
      by (metis prod.collapse)
  next
    case True
    with has_opportunities have e: "acs = []" "cs = []" by auto
    from True have "processFileContent env (JSON_stringify env ?file) handle s
                 = Inr (connect_only handle s)"
      using empty_store p
      by (simp add: processFileContent_def fileHasData_snapshot length_gt0_JArr)
    moreover note connect_only_keeps_collections [of handle s]
    ultimately show ?thesis
      using True e empty_store by (metis prod.collapse)
  qed
qed

text \<open>C3, witness: the snapshot with the one opportunity of Acme.\<close>

theorem roundtrip_witness:
  "\<exists>s' t. processFileContent sample_platform acme_text (Some sample_handle) fresh_app = Inr (s', t)
         \<and> opportunities s' = JArr [acme_json]
         \<and> activities s' = JArr []
         \<and> contacts s' = JArr []"
proof -
  have st: "JSON_stringify sample_platform (snapshot (JArr [acme_json]) (JArr []) (JArr []))
              = acme_text"
    by (simp add: sample_platform_def sample_stringify_def snapshot_def acme_json_def)
  have r: "JSON_parse sample_platform
             (JSON_stringify sample_platform (snapshot (JArr [acme_json]) (JArr []) (JArr [])))
           = Some (snapshot (JArr [acme_json]) (JArr []) (JArr []))"
    unfolding st by (simp add: sample_platform_def sample_parse_def sample_texts)
  have n: "JSON_stringify sample_platform (snapshot (JArr [acme_json]) (JArr []) (JArr [])) \<noteq> []"
    unfolding st by (simp add: sample_texts)
  have e: "opportunities fresh_app = JArr []" "activities fresh_app = JArr []"
          "contacts fresh_app = JArr []"
    by (simp_all add: fresh_app_def)
  have h: "[acme_json] \<noteq> [] \<or> ([] = ([]::json list) \<and> [] = ([]::json list))" by simp
  from roundtrip_into_empty_store [OF r n e h, of "Some sample_handle"]
  show ?thesis unfolding st by blast
qed

text \<open>
  C3, counterexample to the statement for every triple: a snapshot with one contact and
  no opportunity parses back to itself, but \<^verbatim>\<open>fileHasData\<close> looks at the opportunities
  only, so nothing is adopted and the contacts of the store stay empty.
\<close>

theorem contacts_only_file_not_adopted:
  "JSON_parse sample_platform
     (JSON_stringify sample_platform (snapshot (JArr []) (JArr []) (JArr [sarah_json])))
     = Some (snapshot (JArr []) (JArr []) (JArr [sarah_json]))
   \<and> processFileContent sample_platform
       (JSON_stringify sample_platform (snapshot (JArr []) (JArr []) (JArr [sarah_json])))
       None fresh_app
     = Inr (fresh_app, {})
   \<and> contacts fresh_app = JArr []"
proof -
  have st: "JSON_stringify sample_platform (snapshot (JArr []) (JArr []) (JArr [sarah_json]))
              = contacts_only_text"
    by (simp add: sample_platform_def sample_stringify_def snapshot_def sarah_json_def)
  have p: "JSON_parse sample_platform contacts_only_text
             = Some (snapshot (JArr []) (JArr []) (JArr [sarah_json]))"
    by (simp add: sample_platform_def sample_parse_def sample_texts)
  have t: "contacts_only_text \<noteq> []" by (simp add: sample_texts)
  have "processFileContent sample_platform contacts_only_text None fresh_app = Inr (fresh_app, {})"
    using p t
    by (simp add: processFileContent_def parse_file_def fileHasData_snapshot length_gt0_JArr
                  fresh_app_def connect_only_def)
  with p show ?thesis unfolding st by (simp add: fresh_app_def)
qed




text \<open>
  C5. Absent, empty or malformed content should be replaced by empty collections
  without an error. That is so for the empty text and for a text that \<^verbatim>\<open>JSON.parse\<close>
  rejects (\<open>processFileContent_unparseable\<close>); the text \<^verbatim>\<open>null\<close> is accepted by the
  parser, nothing is substituted, and the TypeError of \<^verbatim>\<open>fileData.opportunities\<close> leaves
  \<^verbatim>\<open>processFileContent\<close>.
\<close>

theorem connect_null_file_throws:
  "connect_file sample_platform null_text None fresh_world = Inl TypeError"
  by (simp add: effect_defs sync_defs sample_platform_def sample_parse_def null_text_def fresh_world_def)

section \<open>Smart-Entry Reconciler: C6 to C9\<close>

text \<open>
  C6. When the modal is opened for a given opportunity (\<open>opportunityId\<close> is a non-empty
  string), the state \<^verbatim>\<open>handleAutoFill\<close> leaves has the opportunity choice of the form as
  it was, whatever the extraction service answered, and every activity that
  \<^verbatim>\<open>handleSave\<close> produces refers to that opportunity and creates no new one.
\<close>

theorem locked_opportunity_wins:
  assumes "oid \<noteq> []"
  shows "(\<forall>m1 alerted.
            handleAutoFill env today existing (Some oid) response m = Inr (m1, alerted) \<longrightarrow>
            isNewOp m1 = isNewOp m \<and> selectedOpId m1 = selectedOpId m
            \<and> newOpData m1 = newOpData m)
       \<and> (\<forall>d. handleSave uuidv4 today' initialActivity (Some oid) m' = Some d \<longrightarrow>
              act_opportunityId (sd_activity d) = oid \<and> sd_newOpportunity d = None)"
proof -
  from assms have "truthy_str (Some oid)" by (simp add: truthy_str_def)
  from handleAutoFill_locked [OF this] handleSave_locked [OF assms] show ?thesis by blast
qed

text \<open>
  C6, witness: the service matches opportunity \<^verbatim>\<open>o1\<close>, the modal is locked to \<^verbatim>\<open>o2\<close>, and
  the saved activity refers to \<^verbatim>\<open>o2\<close>.
\<close>

theorem locked_opportunity_witness:
  "\<exists>m1. handleAutoFill sample_platform ''2024-03-01'' [existing_sarah] (Some ''o2'')
           (Some match_o1_result) (described_modal (Some ''o2'')) = Inr (m1, False)
     \<and> isNewOp m1 = False
     \<and> selectedOpId m1 = ''o2''
     \<and> map_option (\<lambda>d. act_opportunityId (sd_activity d))
          (handleSave sample_uuidv4 ''2024-03-01'' None (Some ''o2'') m1) = Some ''o2''"
proof -
  have n: "''o2'' \<noteq> []" by simp
  from locked_opportunity_wins [OF n, of sample_platform "''2024-03-01''" "[existing_sarah]"
         "Some match_o1_result" "described_modal (Some ''o2'')"]
  show ?thesis
    unfolding sample_autofill_locked
    by (simp add: handleSave_def modal_samples truthy_str_def or_else_def Let_def)
qed

text \<open>
  C7. When the mandatory-field check fails, \<^verbatim>\<open>handleSave\<close> returns before \<^verbatim>\<open>onSave\<close> is
  called, and the state of \<^verbatim>\<open>App\<close>, its three collections included, is unchanged.
\<close>

theorem save_rejected_without_mandatory_fields:
  assumes "\<not> mandatory_fields_ok (activityModalOpId s) m"
  shows "handleSave uuidv4 today (editingActivity s) (activityModalOpId s) m = None
         \<and> save_click uuidv4 today m s = s"
  using handleSave_rejects [OF assms] by (simp add: save_click_def)

text \<open>C7, witness: a form without a title.\<close>

theorem save_rejected_witness:
  "\<not> mandatory_fields_ok (activityModalOpId typed_fresh_app) (described_modal (Some ''o2''))
   \<and> save_click sample_uuidv4 ''2024-03-01'' (described_modal (Some ''o2'')) typed_fresh_app
       = typed_fresh_app"
proof -
  have h: "\<not> mandatory_fields_ok (activityModalOpId typed_fresh_app)
               (described_modal (Some ''o2''))"
    by (simp add: mandatory_fields_ok_def modal_samples truthy_str_def)
  from save_rejected_without_mandatory_fields [OF h] h show ?thesis by simp
qed







section \<open>Query/View Layer: C10\<close>

text \<open>
  C10. Requesting the sort key that is selected flips the direction; requesting another
  key selects it, ascending.
\<close>

theorem requestSort_same_key_flips_other_key_ascending:
  "(k = key cfg \<longrightarrow> requestSort k cfg = \<lparr>key = k, direction = flipped (direction cfg)\<rparr>)
   \<and> (k \<noteq> key cfg \<longrightarrow> requestSort k cfg = \<lparr>key = k, direction = Asc\<rparr>)"
  by (cases "direction cfg") (auto simp: requestSort_def flipped_def)

text \<open>C10, witness: from the initial configuration, last activity descending.\<close>

theorem requestSort_witness:
  "requestSort KLastActivity \<lparr>key = KLastActivity, direction = Desc\<rparr>
     = \<lparr>key = KLastActivity, direction = Asc\<rparr>
   \<and> requestSort KLastActivity \<lparr>key = KLastActivity, direction = Asc\<rparr>
     = \<lparr>key = KLastActivity, direction = Desc\<rparr>
   \<and> requestSort KEmployer \<lparr>key = KLastActivity, direction = Desc\<rparr>
     = \<lparr>key = KEmployer, direction = Asc\<rparr>"
  using requestSort_same_key_flips_other_key_ascending
          [of KLastActivity "\<lparr>key = KLastActivity, direction = Desc\<rparr>"]
        requestSort_same_key_flips_other_key_ascending
          [of KLastActivity "\<lparr>key = KLastActivity, direction = Asc\<rparr>"]
        requestSort_same_key_flips_other_key_ascending
          [of KEmployer "\<lparr>key = KLastActivity, direction = Desc\<rparr>"]
  by (simp add: flipped_def)

end
